theory Spec2Isabelle
  imports Main
begin

section \<open>The notebook's objects and globals\<close>

text \<open>
  The notebook \<^verbatim>\<open>docs/docs/versions/migrating_chains/conversation_chain.ipynb\<close>
  defines two functions of its own, \<^verbatim>\<open>get_history\<close> and
  \<^verbatim>\<open>get_session_history\<close>, over two module-level names,
  \<^verbatim>\<open>history\<close> and \<^verbatim>\<open>store\<close>. Both names
  hold references to history objects, and the claims speak of object identity, so the
  objects live in an explicit object store: an object is addressed by its index in a list,
  and the content of a history object is the list of its messages. The message type
  belongs to the framework and stays a type parameter.
\<close>

type_synonym addr = nat

type_synonym 'm objects = "'m list list"

text \<open>The only exception the notebook's own code could raise: a dictionary
  subscript \<^verbatim>\<open>store[session_id]\<close> on a missing key.\<close>

datatype error = KeyError

text \<open>
  Modelled from the spec: the class \<^verbatim>\<open>InMemoryChatMessageHistory\<close>
  is imported from \<^verbatim>\<open>langchain_core.chat_history\<close>; its code is
  not in the notebook. The spec calls it an in-memory list of messages. A constructor call with no argument
  makes a new object, distinct from every object that exists, holding no message.
\<close>

definition InMemoryChatMessageHistory :: "'m objects \<Rightarrow> addr \<times> 'm objects" where
  "InMemoryChatMessageHistory objs = (length objs, objs @ [[]])"

text \<open>
  Modelled from the spec: \<^verbatim>\<open>add_message\<close> of the same class, the way
  the framework extends a history by one conversational turn. A Python reference always
  denotes an existing object; at an address that denotes none, nothing is changed.
\<close>

definition add_message :: "addr \<Rightarrow> 'm \<Rightarrow> 'm objects \<Rightarrow> 'm objects" where
  "add_message h m objs = (if h < length objs then objs[h := objs ! h @ [m]] else objs)"

text \<open>The state of the notebook: the objects, and what the two global names are bound to.\<close>

record 'm notebook =
  objects :: "'m objects"
  history :: addr
  store :: "string \<rightharpoonup> addr"

text \<open>
  \<^verbatim>\<open>
  history = InMemoryChatMessageHistory()
  def get_history():
      return history
  \<close>
\<close>

definition get_history :: "'m notebook \<Rightarrow> addr" where
  "get_history s = history s"

text \<open>
  \<^verbatim>\<open>
  store = {}
  def get_session_history(session_id: str) -> BaseChatMessageHistory:
      if session_id not in store:
          store[session_id] = InMemoryChatMessageHistory()
      return store[session_id]
  \<close>
  The function returns its result (the reference, or the exception of the final
  subscript) together with the state it leaves behind.
\<close>

definition get_session_history ::
  "string \<Rightarrow> 'm notebook \<Rightarrow> (error + addr) \<times> 'm notebook" where
  "get_session_history session_id s =
     (let s' = (if store s session_id = None
                then (case InMemoryChatMessageHistory (objects s) of
                        (h, objs) \<Rightarrow> s\<lparr>objects := objs, store := (store s)(session_id \<mapsto> h)\<rparr>)
                else s)
      in (case store s' session_id of
            None \<Rightarrow> (Inl KeyError, s')
          | Some h \<Rightarrow> (Inr h, s')))"

text \<open>The state after the module-level statements
  \<^verbatim>\<open>history = InMemoryChatMessageHistory()\<close> and
  \<^verbatim>\<open>store = {}\<close>.\<close>

definition notebook_init :: "'m notebook" where
  "notebook_init =
     (case InMemoryChatMessageHistory [] of
        (h, objs) \<Rightarrow> \<lparr>objects = objs, history = h, store = Map.empty\<rparr>)"

text \<open>
  What can happen to the state afterwards: a call of either function, or the framework
  adding a message to a history object it holds a reference to. A run is a sequence of
  such events.
\<close>

datatype 'm event =
  Get_session_history string
| Get_history
| Add_message addr 'm

fun step :: "'m event \<Rightarrow> 'm notebook \<Rightarrow> 'm notebook" where
  "step (Get_session_history session_id) s = snd (get_session_history session_id s)"
| "step Get_history s = s"
| "step (Add_message h m) s = s\<lparr>objects := add_message h m (objects s)\<rparr>"

fun run :: "'m event list \<Rightarrow> 'm notebook \<Rightarrow> 'm notebook" where
  "run [] s = s"
| "run (e # es) s = run es (step e s)"

text \<open>
  The states the notebook can be in are well formed: every reference held by a global
  name denotes an existing object, and no two session identifiers are bound to the same
  object.
\<close>

definition wf :: "'m notebook \<Rightarrow> bool" where
  "wf s \<longleftrightarrow>
     history s < length (objects s) \<and>
     (\<forall>k h. store s k = Some h \<longrightarrow> h < length (objects s)) \<and>
     (\<forall>k k' h. store s k = Some h \<longrightarrow> store s k' = Some h \<longrightarrow> k = k')"

text \<open>
  Modelled from the spec: the class \<^verbatim>\<open>RunnableWithMessageHistory\<close>
  is imported from \<^verbatim>\<open>langchain_core.runnables.history\<close>; its code
  is not in the notebook. The spec calls it a history-wrapping combinator taking a session-lookup callable
  and a configuration map with a session-identifier key, and the notebook says that by
  default the callable takes the single argument \<^verbatim>\<open>session_id\<close>.
  Only the resolution of the history is modelled: the callable is applied to the value
  under \<^verbatim>\<open>"session_id"\<close> of the \<^verbatim>\<open>"configurable"\<close>
  entry. The spec does not say what a configuration without that key leads to: the model
  gives no result there.
\<close>

type_synonym config = "string \<rightharpoonup> (string \<rightharpoonup> string)"

definition invoke_message_history ::
  "(string \<Rightarrow> 'st \<Rightarrow> 'r \<times> 'st) \<Rightarrow> config \<Rightarrow> 'st \<Rightarrow> ('r \<times> 'st) option" where
  "invoke_message_history get_session_history_arg cfg s =
     (case cfg ''configurable'' of
        None \<Rightarrow> None
      | Some configurable \<Rightarrow>
          (case configurable ''session_id'' of
             None \<Rightarrow> None
           | Some session_id \<Rightarrow> Some (get_session_history_arg session_id s)))"

text \<open>The configuration of the notebook's last call:
  \<^verbatim>\<open>config={"configurable": {"session_id": "abc123"}}\<close>.\<close>

definition abc123_config :: config where
  "abc123_config = [''configurable'' \<mapsto> [''session_id'' \<mapsto> ''abc123'']]"

section \<open>Lookup or creation\<close>

lemma get_session_history_present:
  "store s session_id = Some h \<Longrightarrow> get_session_history session_id s = (Inr h, s)"
  by (simp add: get_session_history_def)

lemma get_session_history_absent:
  "store s session_id = None \<Longrightarrow>
   get_session_history session_id s =
     (Inr (length (objects s)),
      s\<lparr>objects := objects s @ [[]],
        store := (store s)(session_id \<mapsto> length (objects s))\<rparr>)"
  by (simp add: get_session_history_def InMemoryChatMessageHistory_def)

section \<open>Runs of the notebook\<close>

lemma length_add_message: "length (add_message h m objs) = length objs"
  by (simp add: add_message_def)

lemma nth_add_message:
  "add_message h m objs ! i = (if i = h \<and> h < length objs then objs ! h @ [m] else objs ! i)"
  by (simp add: add_message_def)

lemma wf_init: "wf notebook_init"
  by (simp add: wf_def notebook_init_def InMemoryChatMessageHistory_def)

lemma wf_get_session_history: "wf s \<Longrightarrow> wf (snd (get_session_history k s))"
proof (cases "store s k")
  case None
  assume "wf s"
  with None show ?thesis
    by (fastforce simp: get_session_history_absent wf_def less_Suc_eq split: if_splits)
next
  case (Some h)
  assume "wf s"
  with Some show ?thesis by (simp add: get_session_history_present)
qed

lemma wf_step: "wf s \<Longrightarrow> wf (step e s)"
  by (cases e) (simp_all add: wf_get_session_history, simp add: wf_def length_add_message)

lemma wf_run: "wf s \<Longrightarrow> wf (run es s)"
  by (induction es arbitrary: s) (simp_all add: wf_step)

lemma history_step: "history (step e s) = history s"
proof (cases e)
  case (Get_session_history k)
  then show ?thesis
    by (cases "store s k") (simp_all add: get_session_history_absent get_session_history_present)
qed simp_all

lemma history_run: "history (run es s) = history s"
  by (induction es arbitrary: s) (simp_all add: history_step)

lemma store_step: "store s k = Some h \<Longrightarrow> store (step e s) k = Some h"
proof (cases e)
  case (Get_session_history k')
  assume "store s k = Some h"
  with Get_session_history show ?thesis
    by (cases "store s k'") (auto simp: get_session_history_absent get_session_history_present)
qed simp_all

lemma store_run: "store s k = Some h \<Longrightarrow> store (run es s) k = Some h"
  by (induction es arbitrary: s) (simp_all add: store_step)

lemma dom_store_step:
  "dom (store (step e s)) = dom (store s) \<union> (case e of Get_session_history k \<Rightarrow> {k} | _ \<Rightarrow> {})"
proof (cases e)
  case (Get_session_history k)
  then show ?thesis
    by (cases "store s k") (auto simp: get_session_history_absent get_session_history_present)
qed simp_all

lemma dom_store_run:
  "dom (store (run es s)) = dom (store s) \<union> {k. Get_session_history k \<in> set es}"
proof (induction es arbitrary: s)
  case Nil
  show ?case by simp
next
  case (Cons e es)
  show ?case by (cases e) (auto simp: Cons.IH dom_store_step simp del: step.simps)
qed

section \<open>The claims\<close>

subsection \<open>Lazy creation\<close>

text \<open>
  C1. For every session identifier and every state, \<^verbatim>\<open>get_session_history\<close>
  returns the history object bound to the identifier in the store it leaves behind. It
  creates a new object without messages and binds the identifier to it exactly when the
  identifier is not yet a key of the store; otherwise the state stays as it was.
\<close>

theorem get_session_history_lookup_or_create:
  "\<exists>h. get_session_history session_id s =
          (Inr h,
           if session_id \<in> dom (store s) then s
           else s\<lparr>objects := objects s @ [[]], store := (store s)(session_id \<mapsto> h)\<rparr>) \<and>
        store (snd (get_session_history session_id s)) session_id = Some h \<and>
        (if session_id \<in> dom (store s) then store s session_id = Some h
         else h = length (objects s)) \<and>
        (snd (get_session_history session_id s) = s) = (session_id \<in> dom (store s))"
proof (cases "store s session_id")
  case None
  have "s\<lparr>objects := objects s @ [[]], store := (store s)(session_id \<mapsto> length (objects s))\<rparr> \<noteq> s"
  proof
    assume "s\<lparr>objects := objects s @ [[]], store := (store s)(session_id \<mapsto> length (objects s))\<rparr> = s"
    then have "objects (s\<lparr>objects := objects s @ [[]], store := (store s)(session_id \<mapsto> length (objects s))\<rparr>) = objects s"
      by simp
    then show False by simp
  qed
  with None show ?thesis
    by (simp add: get_session_history_absent domIff)
next
  case (Some h)
  then show ?thesis
    by (auto simp: get_session_history_present)
qed

theorem get_session_history_lookup_or_create_witness:
  "get_session_history ''abc123'' (notebook_init :: string notebook) =
     (Inr 1, \<lparr>objects = [[], []], history = 0, store = [''abc123'' \<mapsto> 1]\<rparr>) \<and>
   get_session_history ''abc123''
       \<lparr>objects = [[], [''Hello!'']], history = 0, store = [''abc123'' \<mapsto> 1]\<rparr> =
     (Inr 1, \<lparr>objects = [[], [''Hello!'']], history = 0, store = [''abc123'' \<mapsto> 1]\<rparr>)"
  using get_session_history_lookup_or_create [of "''abc123''" "notebook_init :: string notebook"]
    get_session_history_lookup_or_create
      [of "''abc123''" "\<lparr>objects = [[], [''Hello!'']], history = 0, store = [''abc123'' \<mapsto> 1]\<rparr>"]
  by (simp add: notebook_init_def InMemoryChatMessageHistory_def)

text \<open>
  C4. A second call of \<^verbatim>\<open>get_session_history\<close> with the same identifier,
  right after a first one, returns the same object as the first and changes nothing: the
  store and the objects stay as the first call left them.
\<close>

theorem get_session_history_idempotent:
  "case get_session_history session_id s of
     (r1, s1) \<Rightarrow>
       (case get_session_history session_id s1 of
          (r2, s2) \<Rightarrow> (\<exists>h. r1 = Inr h \<and> r2 = Inr h) \<and> s2 = s1)"
proof (cases "store s session_id")
  case None
  then show ?thesis
    by (simp add: get_session_history_absent get_session_history_present)
next
  case (Some h)
  then show ?thesis
    by (simp add: get_session_history_present)
qed

theorem get_session_history_idempotent_witness:
  "get_session_history ''abc123'' (notebook_init :: string notebook) =
     (Inr 1, \<lparr>objects = [[], []], history = 0, store = [''abc123'' \<mapsto> 1]\<rparr>) \<and>
   get_session_history ''abc123'' \<lparr>objects = [[], []], history = 0, store = [''abc123'' \<mapsto> 1]\<rparr> =
     (Inr 1, \<lparr>objects = [[], []], history = 0, store = [''abc123'' \<mapsto> 1]\<rparr>)"
  using get_session_history_idempotent [of "''abc123''" "notebook_init :: string notebook"]
  by (simp add: get_session_history_def notebook_init_def InMemoryChatMessageHistory_def)

text \<open>
  C10. Whatever happens after a state, calls of \<^verbatim>\<open>get_session_history\<close>
  for any identifiers included, no key leaves the store, and an identifier bound to an
  object stays bound to that object: a later lookup of it returns that object and
  changes nothing.
\<close>

theorem store_only_grows:
  "dom (store s) \<subseteq> dom (store (run es s)) \<and>
   (store s session_id = Some h \<longrightarrow>
      store (run es s) session_id = Some h \<and>
      get_session_history session_id (run es s) = (Inr h, run es s))"
  by (auto simp: store_run get_session_history_present)

theorem store_only_grows_witness:
  "store \<lparr>objects = [[], []], history = 0, store = [''abc123'' \<mapsto> 1]\<rparr> ''abc123'' = Some 1 \<and>
   run [Get_session_history ''xyz'', Get_session_history ''abc123'', Add_message 1 ''Hello!'']
     \<lparr>objects = [[], []], history = 0, store = [''abc123'' \<mapsto> 1]\<rparr> =
     \<lparr>objects = [[], [''Hello!''], []], history = 0,
        store = [''abc123'' \<mapsto> 1, ''xyz'' \<mapsto> 2]\<rparr> \<and>
   get_session_history ''abc123''
     \<lparr>objects = [[], [''Hello!''], []], history = 0,
        store = [''abc123'' \<mapsto> 1, ''xyz'' \<mapsto> 2]\<rparr> =
     (Inr 1, \<lparr>objects = [[], [''Hello!''], []], history = 0,
               store = [''abc123'' \<mapsto> 1, ''xyz'' \<mapsto> 2]\<rparr>)"
  using store_only_grows
    [of "\<lparr>objects = [[], []], history = 0, store = [''abc123'' \<mapsto> 1]\<rparr>"
        "[Get_session_history ''xyz'', Get_session_history ''abc123'', Add_message 1 ''Hello!'']"
        "''abc123''" 1]
  by (simp add: get_session_history_def InMemoryChatMessageHistory_def add_message_def
      numeral_2_eq_2)

subsection \<open>Totality\<close>

text \<open>
  C5. The notebook's own functions never raise. In every state
  \<^verbatim>\<open>get_session_history\<close> returns a reference and not the
  \<^verbatim>\<open>KeyError\<close> of its final subscript; in every state the notebook
  reaches, that reference and the one \<^verbatim>\<open>get_history\<close> returns denote
  existing history objects.
\<close>

theorem glue_functions_total:
  "(\<exists>h. fst (get_session_history session_id (s :: 'm notebook)) = Inr h) \<and>
   (case get_session_history session_id (run es notebook_init :: 'm notebook) of
      (r, s') \<Rightarrow> \<exists>h. r = Inr h \<and> h < length (objects s')) \<and>
   get_history (run es notebook_init) < length (objects (run es notebook_init))"
proof -
  let ?t = "run es notebook_init :: 'm notebook"
  have wft: "wf ?t" by (simp add: wf_run wf_init)
  have 1: "\<exists>h. fst (get_session_history session_id s) = Inr h"
    by (cases "store s session_id")
      (simp_all add: get_session_history_absent get_session_history_present)
  have 2: "case get_session_history session_id ?t of
      (r, s') \<Rightarrow> \<exists>h. r = Inr h \<and> h < length (objects s')"
  proof (cases "store ?t session_id")
    case None
    then show ?thesis by (simp add: get_session_history_absent)
  next
    case (Some h)
    with wft have "h < length (objects ?t)" by (auto simp: wf_def)
    with Some show ?thesis by (simp add: get_session_history_present)
  qed
  have 3: "get_history ?t < length (objects ?t)"
    using wft by (simp add: wf_def get_history_def)
  from 1 2 3 show ?thesis by blast
qed

theorem glue_functions_total_witness:
  "fst (get_session_history ''abc123''
          \<lparr>objects = [[''hi'']], history = 0, store = Map.empty\<rparr>) = Inr 1 \<and>
   fst (get_session_history ''abc123''
          (run [Add_message 0 ''hi'', Get_session_history ''xyz''] notebook_init)) = Inr 2 \<and>
   length (objects (snd (get_session_history ''abc123''
          (run [Add_message 0 ''hi'', Get_session_history ''xyz''] notebook_init)))) = 3 \<and>
   get_history (run [Add_message 0 ''hi'', Get_session_history ''xyz''] notebook_init
          :: string notebook) = 0"
  using glue_functions_total
    [of "''abc123''" "\<lparr>objects = [[''hi'']], history = 0, store = Map.empty\<rparr>"
        "[Add_message 0 ''hi'', Get_session_history ''xyz'']"]
  by (simp add: get_session_history_def get_history_def notebook_init_def
      InMemoryChatMessageHistory_def add_message_def)

subsection \<open>The first lookup\<close>

text \<open>
  C6. The store starts empty, and the first call of
  \<^verbatim>\<open>get_session_history\<close> for an identifier, whatever happened to other
  sessions and to the shared history before, returns an existing history object that
  holds no message.
\<close>

theorem first_lookup_is_empty:
  "store (notebook_init :: 'm notebook) = Map.empty \<and>
   (Get_session_history session_id \<notin> set es \<longrightarrow>
    (case get_session_history session_id (run es (notebook_init :: 'm notebook)) of
       (r, s') \<Rightarrow> \<exists>h. r = Inr h \<and> h < length (objects s') \<and> objects s' ! h = []))"
proof -
  let ?t = "run es notebook_init :: 'm notebook"
  have 0: "store (notebook_init :: 'm notebook) = Map.empty"
    by (simp add: notebook_init_def InMemoryChatMessageHistory_def)
  have "store ?t session_id = None" if "Get_session_history session_id \<notin> set es"
  proof -
    have "session_id \<notin> dom (store ?t)"
      using that by (simp add: dom_store_run 0)
    then show ?thesis by (simp add: domIff)
  qed
  then show ?thesis using 0 by (simp add: get_session_history_absent)
qed

theorem first_lookup_is_empty_witness:
  "Get_session_history ''abc123'' \<notin>
     set [Get_session_history ''xyz'', Add_message 1 ''Ahoy'', Add_message 2 ''lost''] \<and>
   fst (get_session_history ''abc123''
          (run [Get_session_history ''xyz'', Add_message 1 ''Ahoy'', Add_message 2 ''lost'']
             notebook_init)) = Inr 2 \<and>
   objects (snd (get_session_history ''abc123''
          (run [Get_session_history ''xyz'', Add_message 1 ''Ahoy'', Add_message 2 ''lost'']
             notebook_init))) = [[], [''Ahoy''], []]"
  using first_lookup_is_empty
    [of "''abc123''"
        "[Get_session_history ''xyz'', Add_message 1 ''Ahoy'', Add_message 2 ''lost'']"]
  by (simp add: get_session_history_def notebook_init_def
      InMemoryChatMessageHistory_def add_message_def numeral_2_eq_2)

subsection \<open>The shared history\<close>

text \<open>
  C8. \<^verbatim>\<open>get_history\<close> takes no argument and returns, in every state the
  notebook reaches, the one object that \<^verbatim>\<open>history\<close> was bound to at
  module level. The object exists, and a message added through the returned reference
  is in the history that the next call returns.
\<close>

theorem get_history_constant:
  "get_history (run es notebook_init :: 'm notebook) = get_history (notebook_init :: 'm notebook) \<and>
   get_history (run es notebook_init) < length (objects (run es notebook_init)) \<and>
   (let s = run es notebook_init :: 'm notebook; s' = step (Add_message (get_history s) m) s
    in get_history s' = get_history s \<and>
       objects s' ! get_history s' = objects s ! get_history s @ [m])"
proof -
  let ?t = "run es notebook_init :: 'm notebook"
  have "wf ?t" by (simp add: wf_run wf_init)
  then have "history ?t < length (objects ?t)" by (simp add: wf_def)
  then show ?thesis
    by (simp add: get_history_def history_run Let_def nth_add_message)
qed

theorem get_history_constant_witness:
  "get_history (run [Get_session_history ''abc123'', Add_message 0 ''hi''] notebook_init
      :: string notebook) = 0 \<and>
   get_history (notebook_init :: string notebook) = 0 \<and>
   objects (step (Add_message 0 ''you'')
      (run [Get_session_history ''abc123'', Add_message 0 ''hi''] notebook_init)) ! 0 =
     [''hi'', ''you'']"
  using get_history_constant
    [of "[Get_session_history ''abc123'', Add_message 0 ''hi'']" "''you''"]
  by (simp add: get_session_history_def get_history_def notebook_init_def
      InMemoryChatMessageHistory_def add_message_def)

subsection \<open>Isolation of sessions\<close>

text \<open>
  C9. In every state the notebook reaches, calls of
  \<^verbatim>\<open>get_session_history\<close> for two different identifiers return two
  different objects, and a message added to the history of the first is added there
  only: the second identifier stays bound to its object, whose messages are unchanged.
\<close>

theorem sessions_isolated:
  "s1 \<noteq> s2 \<Longrightarrow>
   (case get_session_history s1 (run es notebook_init :: 'm notebook) of
      (r1, t1) \<Rightarrow>
        (case get_session_history s2 t1 of
           (r2, t2) \<Rightarrow>
             (\<exists>h1 h2. r1 = Inr h1 \<and> r2 = Inr h2 \<and> h1 \<noteq> h2 \<and>
                store t2 s1 = Some h1 \<and> store t2 s2 = Some h2 \<and>
                (let u = step (Add_message h1 m) t2
                 in store u s2 = Some h2 \<and>
                    objects u ! h2 = objects t2 ! h2 \<and>
                    objects u ! h1 = objects t2 ! h1 @ [m]))))"
proof -
  assume ne: "s1 \<noteq> s2"
  let ?t = "run es notebook_init :: 'm notebook"
  obtain r1 t1 where g1: "get_session_history s1 ?t = (r1, t1)" by force
  obtain r2 t2 where g2: "get_session_history s2 t1 = (r2, t2)" by force
  have t1: "t1 = step (Get_session_history s1) ?t" using g1 by simp
  have t2: "t2 = step (Get_session_history s2) t1" using g2 by simp
  have "wf ?t" by (simp add: wf_run wf_init)
  then have "wf t1" unfolding t1 by (rule wf_step)
  then have wf2: "wf t2" unfolding t2 by (rule wf_step)
  obtain h1 where r1: "r1 = Inr h1" and st1: "store t1 s1 = Some h1"
    using g1 by (cases "store ?t s1")
      (auto simp: get_session_history_absent get_session_history_present)
  obtain h2 where r2: "r2 = Inr h2" and st2: "store t2 s2 = Some h2"
    using g2 by (cases "store t1 s2")
      (auto simp: get_session_history_absent get_session_history_present)
  have st12: "store t2 s1 = Some h1" unfolding t2 using st1 by (rule store_step)
  from wf2 st12 st2 ne have "h1 \<noteq> h2" by (auto simp: wf_def)
  moreover from wf2 st12 have "h1 < length (objects t2)" by (auto simp: wf_def)
  ultimately show ?thesis
    using g1 g2 r1 r2 st12 st2 by (simp add: Let_def nth_add_message)
qed

theorem sessions_isolated_witness:
  "''abc123'' \<noteq> ''xyz'' \<and>
   get_session_history ''abc123'' (notebook_init :: string notebook) =
     (Inr 1, \<lparr>objects = [[], []], history = 0, store = [''abc123'' \<mapsto> 1]\<rparr>) \<and>
   get_session_history ''xyz'' \<lparr>objects = [[], []], history = 0, store = [''abc123'' \<mapsto> 1]\<rparr> =
     (Inr 2, \<lparr>objects = [[], [], []], history = 0,
               store = [''abc123'' \<mapsto> 1, ''xyz'' \<mapsto> 2]\<rparr>) \<and>
   objects (step (Add_message 1 ''Hello!'')
              \<lparr>objects = [[], [], []], history = 0,
                 store = [''abc123'' \<mapsto> 1, ''xyz'' \<mapsto> 2]\<rparr>) =
     [[], [''Hello!''], []]"
  using sessions_isolated
    [where ?s1.0 = "''abc123''" and ?s2.0 = "''xyz''" and es = "[] :: string event list"
       and m = "''Hello!''"]
  by (simp add: get_session_history_def notebook_init_def
      InMemoryChatMessageHistory_def add_message_def numeral_2_eq_2)

subsection \<open>Resolution of the history by the combinator\<close>

text \<open>
  C3. Given a session-lookup callable of one argument, the history-wrapping combinator
  resolves the history of a call by applying the callable to the value under
  \<^verbatim>\<open>"session_id"\<close> in the \<^verbatim>\<open>"configurable"\<close> entry of
  the configuration passed to the call.
\<close>

theorem invoke_applies_callable_to_session_id:
  "cfg ''configurable'' = Some configurable \<Longrightarrow>
   configurable ''session_id'' = Some session_id \<Longrightarrow>
   invoke_message_history get_session_history_arg cfg s =
     Some (get_session_history_arg session_id s)"
  by (simp add: invoke_message_history_def)

theorem invoke_applies_callable_to_session_id_witness:
  "abc123_config ''configurable'' = Some [''session_id'' \<mapsto> ''abc123''] \<and>
   [''session_id'' \<mapsto> ''abc123''] ''session_id'' = Some ''abc123'' \<and>
   invoke_message_history get_session_history abc123_config (notebook_init :: string notebook) =
     Some (Inr 1, \<lparr>objects = [[], []], history = 0, store = [''abc123'' \<mapsto> 1]\<rparr>)"
  using invoke_applies_callable_to_session_id
    [of abc123_config "[''session_id'' \<mapsto> ''abc123'']" "''abc123''"
        get_session_history "notebook_init :: string notebook"]
  by (simp add: abc123_config_def get_session_history_def notebook_init_def
      InMemoryChatMessageHistory_def)

end
